theory Spec2Isabelle
  imports Main "HOL-Library.Word"
begin

section \<open>Go values\<close>

text \<open>
  A Go byte slice is either the nil slice or a backed sequence of bytes; the two are
  told apart because several results of the program are the nil slice on purpose.
  A pair of results \<open>(v, err)\<close> is a pair whose second component is \<open>None\<close> for a
  nil error. A call either returns or panics (a nil pointer dereference).
\<close>

type_synonym byte = "8 word"

datatype slice = NilSlice | Slice "byte list"

datatype 'a go = Panic | Return 'a

fun bytes_of :: "slice \<Rightarrow> byte list" where
  "bytes_of NilSlice = []"
| "bytes_of (Slice xs) = xs"

text \<open>\<open>append(b, xs...)\<close>: appending nothing to the nil slice leaves it nil.\<close>

fun append_slice :: "slice \<Rightarrow> byte list \<Rightarrow> slice" where
  "append_slice NilSlice xs = (if xs = [] then NilSlice else Slice xs)"
| "append_slice (Slice ys) xs = Slice (ys @ xs)"

section \<open>The addresser (hoard.go)\<close>

text \<open>
  The interface \<open>hash.Hash\<close> of the Go standard library, as far as \<open>makeAddresser\<close>
  uses it: the three methods act on the state \<open>'h\<close> of the hasher object. The
  results of \<open>Write\<close> (a count and an error) are discarded by the source.
\<close>

record 'h Hash =
  Hash_Reset :: "'h \<Rightarrow> 'h"
  Hash_Write :: "'h \<Rightarrow> slice \<Rightarrow> 'h"
  Hash_Sum :: "'h \<Rightarrow> slice \<Rightarrow> slice"

text \<open>
  \<open>makeAddresser\<close> closes over one hasher object; the closure it returns mutates
  that object at every call, so the model passes the hasher's state in and out.
\<close>

definition makeAddresser :: "'h Hash \<Rightarrow> slice \<Rightarrow> 'h \<Rightarrow> slice \<times> 'h" where
  "makeAddresser hasher data h =
     (let h1 = Hash_Reset hasher h;
          h2 = Hash_Write hasher h1 data
      in (Hash_Sum hasher h2 NilSlice, h2))"

text \<open>
  \<open>sha256.New()\<close> belongs to the Go standard library, not to the repository. The
  digest function itself is a parameter \<open>sum256\<close>; its result is the fixed-size
  array \<open>[32]byte\<close> that \<open>checkSum\<close> returns, here a 256-bit word read big-endian.
  The hasher object is described by the documented behaviour of its methods: its
  state is the sequence of bytes written since the last \<open>Reset\<close>, \<open>Write\<close> adds to
  it, and \<open>Sum(b)\<close> appends the digest of that sequence to \<open>b\<close> without changing
  the state. A new hasher starts reset.
\<close>

definition digest_bytes :: "256 word \<Rightarrow> byte list" where
  "digest_bytes w = map (\<lambda>i. ucast (drop_bit (8 * (31 - i)) w)) [0..<32]"

definition sha256_New :: "(byte list \<Rightarrow> 256 word) \<Rightarrow> (byte list) Hash" where
  "sha256_New sum256 =
     \<lparr> Hash_Reset = (\<lambda>h. []),
       Hash_Write = (\<lambda>h p. h @ bytes_of p),
       Hash_Sum = (\<lambda>h b. append_slice b (digest_bytes (sum256 h))) \<rparr>"

definition sha256_fresh :: "byte list" where
  "sha256_fresh = []"

text \<open>A sequence of calls of one addresser closure, each on the state the last left.\<close>

fun addresser_calls :: "(slice \<Rightarrow> 'h \<Rightarrow> slice \<times> 'h) \<Rightarrow> slice list \<Rightarrow> 'h \<Rightarrow> slice list \<times> 'h" where
  "addresser_calls f [] h = ([], h)"
| "addresser_calls f (d # ds) h =
     (let (a, h1) = f d h;
          (as, h2) = addresser_calls f ds h1
      in (a # as, h2))"

section \<open>The store interface and the content-addressed store (storage.go)\<close>

record StatInfo =
  Exists :: bool
  Size :: "64 word"

text \<open>
  \<open>Store\<close> is an interface: a backend is given by its four methods over the
  backend's own state \<open>'st\<close>. Every method may change that state; \<open>'e\<close> is the type
  of the backend's error values.
\<close>

record ('st, 'e) Store =
  store_Get :: "'st \<Rightarrow> slice \<Rightarrow> (slice \<times> 'e option) \<times> 'st"
  store_Stat :: "'st \<Rightarrow> slice \<Rightarrow> (StatInfo option \<times> 'e option) \<times> 'st"
  store_Put :: "'st \<Rightarrow> slice \<Rightarrow> slice \<Rightarrow> 'e option \<times> 'st"
  store_Location :: "'st \<Rightarrow> slice \<Rightarrow> string \<times> 'st"

record ('h, 'st, 'e) contentAddressedStore =
  cas_addresser :: "slice \<Rightarrow> 'h \<Rightarrow> slice \<times> 'h"
  cas_store :: "('st, 'e) Store"

text \<open>
  The mutable state a content-addressed store works on: the state captured by its
  addresser closure and the state of its backend.
\<close>

record ('h, 'st) world =
  hasher :: 'h
  backend :: 'st

definition NewContentAddressedStore ::
  "(slice \<Rightarrow> 'h \<Rightarrow> slice \<times> 'h) \<Rightarrow> ('st, 'e) Store \<Rightarrow> ('h, 'st, 'e) contentAddressedStore" where
  "NewContentAddressedStore addresser store = \<lparr> cas_addresser = addresser, cas_store = store \<rparr>"

definition cas_Address ::
  "('h, 'st, 'e) contentAddressedStore \<Rightarrow> slice \<Rightarrow> ('h, 'st) world \<Rightarrow> slice \<times> ('h, 'st) world" where
  "cas_Address cas data w =
     (let (address, h1) = cas_addresser cas data (hasher w)
      in (address, w\<lparr>hasher := h1\<rparr>))"

definition cas_Put ::
  "('h, 'st, 'e) contentAddressedStore \<Rightarrow> slice \<Rightarrow> ('h, 'st) world
     \<Rightarrow> (slice \<times> 'e option) \<times> ('h, 'st) world" where
  "cas_Put cas data w =
     (let (address, h1) = cas_addresser cas data (hasher w);
          (err, st1) = store_Put (cas_store cas) (backend w) address data
      in ((address, err), \<lparr> hasher = h1, backend = st1 \<rparr>))"

definition cas_Get ::
  "('h, 'st, 'e) contentAddressedStore \<Rightarrow> slice \<Rightarrow> ('h, 'st) world
     \<Rightarrow> (slice \<times> 'e option) \<times> ('h, 'st) world" where
  "cas_Get cas address w =
     (let (r, st1) = store_Get (cas_store cas) (backend w) address
      in (r, w\<lparr>backend := st1\<rparr>))"

definition cas_Stat ::
  "('h, 'st, 'e) contentAddressedStore \<Rightarrow> slice \<Rightarrow> ('h, 'st) world
     \<Rightarrow> (StatInfo option \<times> 'e option) \<times> ('h, 'st) world" where
  "cas_Stat cas address w =
     (let (r, st1) = store_Stat (cas_store cas) (backend w) address
      in (r, w\<lparr>backend := st1\<rparr>))"

definition cas_Location ::
  "('h, 'st, 'e) contentAddressedStore \<Rightarrow> slice \<Rightarrow> ('h, 'st) world \<Rightarrow> string \<times> ('h, 'st) world" where
  "cas_Location cas address w =
     (let (r, st1) = store_Location (cas_store cas) (backend w) address
      in (r, w\<lparr>backend := st1\<rparr>))"

section \<open>The encrypted-store facade (hoard.go)\<close>

text \<open>
  Modelled from the spec: the package \<open>hoard/reference\<close> is not among the sources.
  A reference is the triple (address, secret key, salt), and \<open>reference.New\<close>
  builds it from its three arguments in that order.
\<close>

record reference =
  Address :: slice
  SecretKey :: slice
  Salt :: slice

definition reference_New :: "slice \<Rightarrow> slice \<Rightarrow> slice \<Rightarrow> reference" where
  "reference_New address secretKey salt =
     \<lparr> Address = address, SecretKey = secretKey, Salt = salt \<rparr>"

text \<open>
  \<open>Encrypt\<close> and \<open>Decrypt\<close> are functions of the package whose file is not among
  the sources; the facade takes them as parameters. \<open>Encrypt\<close> returns a blob with
  the accessors \<open>EncryptedData()\<close> and \<open>SecretKey()\<close>, and an error; \<open>Decrypt\<close>
  returns the data and an error.
\<close>

record blob =
  blob_EncryptedData :: slice
  blob_SecretKey :: slice

type_synonym 'e encrypt = "slice \<Rightarrow> slice \<Rightarrow> blob \<times> 'e option"
type_synonym 'e decrypt = "slice \<Rightarrow> slice \<Rightarrow> slice \<Rightarrow> slice \<times> 'e option"

text \<open>The struct \<open>hoard\<close>; its logger takes no part in any operation.\<close>

record ('h, 'st, 'e) hoard =
  hoard_store :: "('h, 'st, 'e) contentAddressedStore"

definition NewHoard :: "(byte list \<Rightarrow> 256 word) \<Rightarrow> ('st, 'e) Store \<Rightarrow> (byte list, 'st, 'e) hoard" where
  "NewHoard sum256 store =
     \<lparr> hoard_store = NewContentAddressedStore (makeAddresser (sha256_New sum256)) store \<rparr>"

text \<open>\<open>Get\<close> dereferences its argument at once: a nil reference panics.\<close>

definition Get ::
  "'e decrypt \<Rightarrow> ('h, 'st, 'e) hoard \<Rightarrow> reference option \<Rightarrow> ('h, 'st) world
     \<Rightarrow> (slice \<times> 'e option) go \<times> ('h, 'st) world" where
  "Get Decrypt hrd refp w =
     (case refp of
        None \<Rightarrow> (Panic, w)
      | Some ref \<Rightarrow>
          (case cas_Get (hoard_store hrd) (Address ref) w of
             ((encryptedData, Some err), w1) \<Rightarrow> (Return (NilSlice, Some err), w1)
           | ((encryptedData, None), w1) \<Rightarrow>
               (case Decrypt (SecretKey ref) encryptedData (Salt ref) of
                  (data, Some err) \<Rightarrow> (Return (NilSlice, Some err), w1)
                | (data, None) \<Rightarrow> (Return (data, None), w1))))"

definition Put ::
  "'e encrypt \<Rightarrow> ('h, 'st, 'e) hoard \<Rightarrow> slice \<Rightarrow> slice \<Rightarrow> ('h, 'st) world
     \<Rightarrow> (reference option \<times> 'e option) \<times> ('h, 'st) world" where
  "Put Encrypt hrd data salt w =
     (case Encrypt data salt of
        (blob, Some err) \<Rightarrow> ((None, Some err), w)
      | (blob, None) \<Rightarrow>
          (case cas_Put (hoard_store hrd) (blob_EncryptedData blob) w of
             ((address, Some err), w1) \<Rightarrow> ((None, Some err), w1)
           | ((address, None), w1) \<Rightarrow>
               ((Some (reference_New address (blob_SecretKey blob) salt), None), w1)))"

definition Ref ::
  "'e encrypt \<Rightarrow> ('h, 'st, 'e) hoard \<Rightarrow> slice \<Rightarrow> slice \<Rightarrow> ('h, 'st) world
     \<Rightarrow> (reference option \<times> 'e option) \<times> ('h, 'st) world" where
  "Ref Encrypt hrd data salt w =
     (case Encrypt data salt of
        (blob, Some err) \<Rightarrow> ((None, Some err), w)
      | (blob, None) \<Rightarrow>
          (let (address, w1) = cas_Address (hoard_store hrd) (blob_EncryptedData blob) w
           in ((Some (reference_New address (blob_SecretKey blob) salt), None), w1)))"

definition hoard_Store :: "('h, 'st, 'e) hoard \<Rightarrow> ('h, 'st, 'e) contentAddressedStore" where
  "hoard_Store hrd = hoard_store hrd"

section \<open>The command-line client hoarctl\<close>

text \<open>
  Go strings are byte sequences, here \<open>string\<close>; \<open>[]byte(s)\<close> is the backed slice of
  the string's bytes.

  \<open>base64.StdEncoding.DecodeString\<close> belongs to the Go standard library. The
  functions of the client that call it take it as a parameter. The definition
  below describes the standard, padded encoding for the examples: carriage returns
  and line feeds are skipped, every four characters of the alphabet give three
  bytes, and the last group may end in one or two padding characters. Its error
  carries no position, and no partial data is returned beside it: the client looks
  at neither.
\<close>

definition bytes_of_string :: "string \<Rightarrow> slice" where
  "bytes_of_string s = Slice (map of_char s)"

datatype base64_error = CorruptInputError

definition b64_index :: "char \<Rightarrow> nat option" where
  "b64_index c =
     (let n = (of_char c :: nat) in
      if 65 \<le> n \<and> n \<le> 90 then Some (n - 65)
      else if 97 \<le> n \<and> n \<le> 122 then Some (n - 71)
      else if 48 \<le> n \<and> n \<le> 57 then Some (n + 4)
      else if n = 43 then Some 62
      else if n = 47 then Some 63
      else None)"

fun decode_quanta :: "char list \<Rightarrow> byte list option" where
  "decode_quanta [] = Some []"
| "decode_quanta (a # b # c # d # rest) =
     (case (b64_index a, b64_index b) of
        (Some x, Some y) \<Rightarrow>
          (if c = CHR ''='' then
             (if d = CHR ''='' \<and> rest = [] then Some [of_nat (x * 4 + y div 16)] else None)
           else
             (case b64_index c of
                None \<Rightarrow> None
              | Some z \<Rightarrow>
                  (if d = CHR ''='' then
                     (if rest = []
                      then Some [of_nat (x * 4 + y div 16), of_nat (y mod 16 * 16 + z div 4)]
                      else None)
                   else
                     (case b64_index d of
                        None \<Rightarrow> None
                      | Some u \<Rightarrow>
                          (case decode_quanta rest of
                             None \<Rightarrow> None
                           | Some bs \<Rightarrow>
                               Some (of_nat (x * 4 + y div 16) # of_nat (y mod 16 * 16 + z div 4)
                                     # of_nat (z mod 4 * 64 + u) # bs))))))
      | _ \<Rightarrow> None)"
| "decode_quanta _ = None"

definition StdEncoding_DecodeString :: "string \<Rightarrow> slice \<times> base64_error option" where
  "StdEncoding_DecodeString s =
     (case decode_quanta (filter (\<lambda>c. c \<noteq> CHR 0x0A \<and> c \<noteq> CHR 0x0D) s) of
        None \<Rightarrow> (NilSlice, Some CorruptInputError)
      | Some bs \<Rightarrow> (Slice bs, None))"

definition parseSalt :: "(string \<Rightarrow> slice \<times> 'e option) \<Rightarrow> string \<Rightarrow> slice" where
  "parseSalt DecodeString saltString =
     (if saltString = [] then NilSlice
      else
        (case DecodeString saltString of
           (saltBytes, None) \<Rightarrow> saltBytes
         | (saltBytes, Some err) \<Rightarrow> bytes_of_string saltString))"

text \<open>
  Modelled from the spec: the messages \<open>core.Reference\<close> and \<open>core.Plaintext\<close> of the
  RPC interface are not among the sources. A reference has the fields address,
  secret key and salt, a plaintext the fields data and salt.
\<close>

record core_Reference =
  core_Address :: slice
  core_SecretKey :: slice
  core_Salt :: slice

record core_Plaintext =
  plaintext_Data :: slice
  plaintext_Salt :: slice

text \<open>
  What a run of the client does to the outside: the text written to STDERR, the
  bytes written to STDOUT and the requests of the cleartext service's \<open>Get\<close> it has
  issued. A step of the client exits the process with a code (\<open>os.Exit\<close>), panics, or
  goes on with a value.
\<close>

record process =
  stderr :: string
  stdout :: "byte list"
  rpcs :: "core_Reference option list"

datatype 'a cli = Exit int | Panics | Continue 'a

datatype 'e arg = StrArg string | ErrArg 'e

text \<open>
  The functions the client calls and the sources do not hold: \<open>fmt.Sprintf\<close>, the
  base64 decoder, \<open>server.SplitListenURL\<close>, \<open>grpc.Dial\<close>, the bytes
  \<open>ioutil.ReadAll\<close> reads from STDIN, \<open>json.Unmarshal\<close> into a reference, and the
  RPC \<open>Get\<close> of the cleartext client.
\<close>

record ('e, 'conn) cli_env =
  env_Sprintf :: "string \<Rightarrow> 'e arg list \<Rightarrow> string"
  env_DecodeString :: "string \<Rightarrow> slice \<times> 'e option"
  env_SplitListenURL :: "string \<Rightarrow> string \<times> string \<times> 'e option"
  env_Dial :: "string \<Rightarrow> string \<Rightarrow> string \<Rightarrow> 'conn \<times> 'e option"
  env_ReadAll_Stdin :: "slice \<times> 'e option"
  env_Unmarshal :: "slice \<Rightarrow> core_Reference \<times> 'e option"
  env_cleartext_Get :: "'conn \<Rightarrow> core_Reference option \<Rightarrow> core_Plaintext option \<times> 'e option"

definition bind_cli ::
  "(process \<Rightarrow> 'a cli \<times> process) \<Rightarrow> ('a \<Rightarrow> process \<Rightarrow> 'b cli \<times> process)
     \<Rightarrow> process \<Rightarrow> 'b cli \<times> process" where
  "bind_cli m f p =
     (case m p of
        (Exit code, p1) \<Rightarrow> (Exit code, p1)
      | (Panics, p1) \<Rightarrow> (Panics, p1)
      | (Continue x, p1) \<Rightarrow> f x p1)"

text \<open>\<open>fatalf\<close> prints the formatted message and a newline to STDERR and exits with 1.\<close>

definition fatalf ::
  "(string \<Rightarrow> 'e arg list \<Rightarrow> string) \<Rightarrow> string \<Rightarrow> 'e arg list \<Rightarrow> process \<Rightarrow> 'a cli \<times> process" where
  "fatalf Sprintf format args p =
     (Exit 1, p\<lparr>stderr := stderr p @ Sprintf (format @ [CHR 0x0A]) args\<rparr>)"

definition readBase64 :: "('e, 'conn) cli_env \<Rightarrow> string \<Rightarrow> process \<Rightarrow> slice cli \<times> process" where
  "readBase64 env base64String p =
     (case env_DecodeString env base64String of
        (secretKeyBytes, Some err) \<Rightarrow>
          fatalf (env_Sprintf env) ''Could not decode '%s' as base64-encoded string''
            [StrArg base64String] p
      | (secretKeyBytes, None) \<Rightarrow> (Continue secretKeyBytes, p))"

definition parseReference :: "('e, 'conn) cli_env \<Rightarrow> core_Reference option \<times> 'e option" where
  "parseReference env =
     (case env_ReadAll_Stdin env of
        (bs, Some err) \<Rightarrow> (None, Some err)
      | (bs, None) \<Rightarrow>
          (case env_Unmarshal env bs of
             (ref, Some err) \<Rightarrow> (None, Some err)
           | (ref, None) \<Rightarrow> (Some ref, None)))"

definition Before :: "('e, 'conn) cli_env \<Rightarrow> string \<Rightarrow> process \<Rightarrow> 'conn cli \<times> process" where
  "Before env dialURL p =
     (let (netProtocol, localAddress, err) = env_SplitListenURL env dialURL;
          (conn, err) = env_Dial env dialURL netProtocol localAddress
      in case err of
           Some e \<Rightarrow>
             fatalf (env_Sprintf env) ''Could not dial hoard server on %s: %v''
               [StrArg dialURL, ErrArg e] p
         | None \<Rightarrow> (Continue conn, p))"

definition get_reference ::
  "('e, 'conn) cli_env \<Rightarrow> string option \<Rightarrow> string option \<Rightarrow> string \<Rightarrow> process
     \<Rightarrow> core_Reference option cli \<times> process" where
  "get_reference env address secretKey saltString p =
     (let from_stdin =
        (case parseReference env of
           (ref, Some err) \<Rightarrow>
             fatalf (env_Sprintf env) ''Could read reference from STDIN to retrieve: %v''
               [ErrArg err] p
         | (ref, None) \<Rightarrow> (Continue ref, p));
          no_key =
            fatalf (env_Sprintf env) ''A secret key must be provided in order to decrypt.'' [] p
      in case address of
           None \<Rightarrow> from_stdin
         | Some a \<Rightarrow>
             (if a = [] then from_stdin
              else
                (case secretKey of
                   None \<Rightarrow> no_key
                 | Some k \<Rightarrow>
                     (if k = [] then no_key
                      else
                        bind_cli (readBase64 env a)
                          (\<lambda>addressBytes.
                             bind_cli (readBase64 env k)
                               (\<lambda>secretKeyBytes p2.
                                  (Continue
                                     (Some \<lparr> core_Address = addressBytes,
                                              core_SecretKey = secretKeyBytes,
                                              core_Salt = parseSalt (env_DecodeString env) saltString \<rparr>),
                                   p2))) p))))"

definition get_action ::
  "('e, 'conn) cli_env \<Rightarrow> 'conn \<Rightarrow> string option \<Rightarrow> string option \<Rightarrow> string \<Rightarrow> process
     \<Rightarrow> unit cli \<times> process" where
  "get_action env conn address secretKey saltString =
     bind_cli (get_reference env address secretKey saltString)
       (\<lambda>ref p.
          (case env_cleartext_Get env conn ref of
             (plaintext, Some err) \<Rightarrow>
               fatalf (env_Sprintf env) ''Error retrieving data: %v'' [ErrArg err]
                 (p\<lparr>rpcs := rpcs p @ [ref]\<rparr>)
           | (None, None) \<Rightarrow> (Panics, p\<lparr>rpcs := rpcs p @ [ref]\<rparr>)
           | (Some plaintext, None) \<Rightarrow>
               (Continue (),
                p\<lparr>rpcs := rpcs p @ [ref],
                   stdout := stdout p @ bytes_of (plaintext_Data plaintext)\<rparr>)))"

definition hoarctl_get ::
  "('e, 'conn) cli_env \<Rightarrow> string \<Rightarrow> string option \<Rightarrow> string option \<Rightarrow> string \<Rightarrow> process
     \<Rightarrow> unit cli \<times> process" where
  "hoarctl_get env dialURL address secretKey saltString =
     bind_cli (Before env dialURL) (\<lambda>conn. get_action env conn address secretKey saltString)"

section \<open>The credentials provider chain of the S3 configuration\<close>

text \<open>
  The providers and the credentials object are values of the AWS library; the model
  keeps which provider was built from which fields, and of the credentials the list
  of providers they chain. An error made by \<open>fmt.Errorf\<close> is its message.
\<close>

definition EnvProviderName :: string where
  "EnvProviderName = ''env''"

definition SharedCredentialsProviderName :: string where
  "SharedCredentialsProviderName = ''shared''"

definition StaticProviderName :: string where
  "StaticProviderName = ''static''"

record SharedCredentialsProviderConfig =
  Filename :: string
  Profile :: string

record StaticProviderConfig =
  AccessKeyID :: string
  SecretAccessKey :: string
  SessionToken :: string

record CredentialsProviderConfig =
  Provider :: string
  cpc_SharedCredentialsProviderConfig :: "SharedCredentialsProviderConfig option"
  cpc_StaticProviderConfig :: "StaticProviderConfig option"

datatype error = Errorf string

datatype credentials_Provider =
    EnvProvider
  | SharedCredentialsProvider string string
  | StaticProvider string string string

datatype Credentials = NewChainCredentials "credentials_Provider option list"

definition StaticProviderConfig_Provider ::
  "StaticProviderConfig option \<Rightarrow> credentials_Provider option \<times> error option" where
  "StaticProviderConfig_Provider spc =
     (case spc of
        None \<Rightarrow>
          (None, Some (Errorf (''Must include static provider config in '' @
                               ''order to form static provider.'')))
      | Some c \<Rightarrow>
          (Some (StaticProvider (AccessKeyID c) (SecretAccessKey c) (SessionToken c)), None))"

definition SharedCredentialsProviderConfig_Provider ::
  "SharedCredentialsProviderConfig option \<Rightarrow> credentials_Provider option \<times> error option" where
  "SharedCredentialsProviderConfig_Provider scpc =
     (case scpc of
        None \<Rightarrow>
          (None, Some (Errorf (''Must include shared credentials provider '' @
                               ''config in order to form shared credentials provider.'')))
      | Some c \<Rightarrow> (Some (SharedCredentialsProvider (Filename c) (Profile c)), None))"

definition chain_switch ::
  "CredentialsProviderConfig \<Rightarrow> error option \<Rightarrow> credentials_Provider option \<times> error option" where
  "chain_switch cpc err =
     (if Provider cpc = EnvProviderName then (Some EnvProvider, err)
      else if Provider cpc = SharedCredentialsProviderName then
        SharedCredentialsProviderConfig_Provider (cpc_SharedCredentialsProviderConfig cpc)
      else if Provider cpc = StaticProviderName then
        StaticProviderConfig_Provider (cpc_StaticProviderConfig cpc)
      else
        (None, Some (Errorf (''Credential provider named '' @ [CHR 0x27] @ Provider cpc @
                             [CHR 0x27] @ '' could not be found''))))"

fun chain_loop ::
  "CredentialsProviderConfig option list \<Rightarrow> credentials_Provider option list \<Rightarrow> error option
     \<Rightarrow> (error + credentials_Provider option list) go" where
  "chain_loop [] providers err = Return (Inr providers)"
| "chain_loop (None # cpcs) providers err = Panic"
| "chain_loop (Some cpc # cpcs) providers err =
     (case chain_switch cpc err of
        (provider, Some e) \<Rightarrow> Return (Inl e)
      | (provider, None) \<Rightarrow> chain_loop cpcs (providers @ [provider]) None)"

definition AWSCredentialsFromChain ::
  "CredentialsProviderConfig option list \<Rightarrow> (Credentials option \<times> error option) go" where
  "AWSCredentialsFromChain cpcs =
     (case chain_loop cpcs [] None of
        Panic \<Rightarrow> Panic
      | Return (Inl err) \<Rightarrow> Return (None, Some err)
      | Return (Inr providers) \<Rightarrow>
          Return (if length providers > 0 then Some (NewChainCredentials providers) else None,
                  None))"

text \<open>
  The claim about the chain, in its own words: an entry is admissible when its
  provider name is one of the three and the configuration it names is present; the
  provider built for an admissible entry; the error an inadmissible entry ends the
  call with; the first inadmissible entry of a list; and the credentials of a list
  of admissible entries.
\<close>

definition entry_ok :: "CredentialsProviderConfig \<Rightarrow> bool" where
  "entry_ok c =
     (Provider c = ''env''
      \<or> (Provider c = ''shared'' \<and> cpc_SharedCredentialsProviderConfig c \<noteq> None)
      \<or> (Provider c = ''static'' \<and> cpc_StaticProviderConfig c \<noteq> None))"

definition entry_provider :: "CredentialsProviderConfig \<Rightarrow> credentials_Provider option" where
  "entry_provider c =
     (if Provider c = ''env'' then Some EnvProvider
      else if Provider c = ''shared'' then
        map_option (\<lambda>s. SharedCredentialsProvider (Filename s) (Profile s))
          (cpc_SharedCredentialsProviderConfig c)
      else if Provider c = ''static'' then
        map_option (\<lambda>s. StaticProvider (AccessKeyID s) (SecretAccessKey s) (SessionToken s))
          (cpc_StaticProviderConfig c)
      else None)"

definition entry_error :: "CredentialsProviderConfig \<Rightarrow> error" where
  "entry_error c =
     (if Provider c = ''shared'' then
        Errorf (''Must include shared credentials provider config in order to form '' @
                ''shared credentials provider.'')
      else if Provider c = ''static'' then
        Errorf ''Must include static provider config in order to form static provider.''
      else
        Errorf (''Credential provider named '' @ [CHR 0x27] @ Provider c @ [CHR 0x27] @
                '' could not be found''))"

fun first_violation :: "CredentialsProviderConfig list \<Rightarrow> CredentialsProviderConfig option" where
  "first_violation [] = None"
| "first_violation (c # cs) = (if entry_ok c then first_violation cs else Some c)"

definition chain_credentials :: "CredentialsProviderConfig list \<Rightarrow> Credentials option" where
  "chain_credentials cfgs =
     (if cfgs = [] then None else Some (NewChainCredentials (map entry_provider cfgs)))"


section \<open>Example instances of the parameters\<close>

text \<open>
  Concrete values for the parameters of the model, on which the theorems below are
  exercised: an in-memory backend kept as an association list (the newest entry
  first), a backend whose every operation fails, the identity cipher, a cipher that
  always fails, and a stand-in for the digest function.
\<close>

datatype example_error = NotFound | IOError | CryptoError

definition mem_Store :: "((slice \<times> slice) list, example_error) Store" where
  "mem_Store =
     \<lparr> store_Get = (\<lambda>st a. case map_of st a of
                                None \<Rightarrow> ((NilSlice, Some NotFound), st)
                              | Some d \<Rightarrow> ((d, None), st)),
       store_Stat = (\<lambda>st a. case map_of st a of
                                None \<Rightarrow> ((Some \<lparr> Exists = False, Size = 0 \<rparr>, None), st)
                              | Some d \<Rightarrow> ((Some \<lparr> Exists = True, Size = of_nat (length (bytes_of d)) \<rparr>, None), st)),
       store_Put = (\<lambda>st a d. (None, (a, d) # st)),
       store_Location = (\<lambda>st a. (''mem'', st)) \<rparr>"

definition broken_Store :: "((slice \<times> slice) list, example_error) Store" where
  "broken_Store =
     \<lparr> store_Get = (\<lambda>st a. ((NilSlice, Some IOError), st)),
       store_Stat = (\<lambda>st a. ((None, Some IOError), st)),
       store_Put = (\<lambda>st a d. (Some IOError, st)),
       store_Location = (\<lambda>st a. ([], st)) \<rparr>"

definition id_Encrypt :: "example_error encrypt" where
  "id_Encrypt data salt = (\<lparr> blob_EncryptedData = data, blob_SecretKey = Slice [] \<rparr>, None)"

definition id_Decrypt :: "example_error decrypt" where
  "id_Decrypt secretKey encryptedData salt = (encryptedData, None)"

definition failing_Encrypt :: "example_error encrypt" where
  "failing_Encrypt data salt = (\<lparr> blob_EncryptedData = data, blob_SecretKey = Slice [] \<rparr>, Some CryptoError)"

definition failing_Decrypt :: "example_error decrypt" where
  "failing_Decrypt secretKey encryptedData salt = (encryptedData, Some CryptoError)"

definition length_sum256 :: "byte list \<Rightarrow> 256 word" where
  "length_sum256 bs = of_nat (length bs)"

definition example_world :: "(byte list, (slice \<times> slice) list) world" where
  "example_world = \<lparr> hasher = [], backend = [] \<rparr>"

datatype cli_error = Base64 base64_error | UnsupportedScheme | Unavailable

fun error_text :: "cli_error \<Rightarrow> string" where
  "error_text (Base64 e) = ''illegal base64 data''"
| "error_text UnsupportedScheme = ''unsupported scheme''"
| "error_text Unavailable = ''unavailable''"

fun arg_text :: "cli_error arg \<Rightarrow> string" where
  "arg_text (StrArg s) = s"
| "arg_text (ErrArg e) = error_text e"

fun example_Sprintf :: "string \<Rightarrow> cli_error arg list \<Rightarrow> string" where
  "example_Sprintf [] args = []"
| "example_Sprintf [c] args = [c]"
| "example_Sprintf (c # v # rest) args =
     (if c = CHR ''%'' \<and> (v = CHR ''s'' \<or> v = CHR ''v'') then
        (case args of
           [] \<Rightarrow> ''%!'' @ [v] @ ''(MISSING)'' @ example_Sprintf rest []
         | a # as \<Rightarrow> arg_text a @ example_Sprintf rest as)
      else c # example_Sprintf (v # rest) args)"

definition example_reference :: core_Reference where
  "example_reference =
     \<lparr> core_Address = Slice [1], core_SecretKey = Slice [2], core_Salt = NilSlice \<rparr>"

definition example_env :: "(cli_error, string \<times> string) cli_env" where
  "example_env =
     \<lparr> env_Sprintf = example_Sprintf,
       env_DecodeString =
         (\<lambda>s. case StdEncoding_DecodeString s of
                 (b, None) \<Rightarrow> (b, None)
               | (b, Some e) \<Rightarrow> (b, Some (Base64 e))),
       env_SplitListenURL =
         (\<lambda>url. if take 6 url = ''tcp://'' then (''tcp'', drop 6 url, None)
                else if take 7 url = ''unix://'' then (''unix'', drop 7 url, None)
                else ([], [], Some UnsupportedScheme)),
       env_Dial = (\<lambda>url netProtocol localAddress. ((netProtocol, localAddress), None)),
       env_ReadAll_Stdin = (Slice [], None),
       env_Unmarshal = (\<lambda>bs. (example_reference, None)),
       env_cleartext_Get =
         (\<lambda>conn ref. if fst conn = [] then (None, Some Unavailable)
                     else (Some \<lparr> plaintext_Data = Slice [120], plaintext_Salt = NilSlice \<rparr>, None)) \<rparr>"

definition start_process :: process where
  "start_process = \<lparr> stderr = [], stdout = [], rpcs = [] \<rparr>"

section \<open>Properties of the addresser\<close>

lemma length_digest_bytes: "length (digest_bytes w) = 32"
  by (simp add: digest_bytes_def)

text \<open>
  Whatever the hasher, the closure starts by resetting it: two states that reset to
  the same state give the same result.
\<close>

lemma makeAddresser_forgets_state:
  "Hash_Reset H h = Hash_Reset H h' \<Longrightarrow> makeAddresser H data h = makeAddresser H data h'"
  by (simp add: makeAddresser_def)

lemma makeAddresser_sha256:
  "makeAddresser (sha256_New sum256) data h =
     (Slice (digest_bytes (sum256 (bytes_of data))), bytes_of data)"
  by (simp add: makeAddresser_def sha256_New_def Let_def digest_bytes_def)

lemma sha256_calls:
  "fst (addresser_calls (makeAddresser (sha256_New sum256)) ds h) =
     map (\<lambda>d. Slice (digest_bytes (sum256 (bytes_of d)))) ds"
  by (induction ds arbitrary: h) (simp_all add: makeAddresser_sha256 case_prod_beta)

lemma sha256_fresh_digest:
  "Hash_Sum (sha256_New sum256) (Hash_Write (sha256_New sum256) sha256_fresh d) NilSlice =
     Slice (digest_bytes (sum256 (bytes_of d)))"
  by (simp add: sha256_New_def sha256_fresh_def digest_bytes_def)

text \<open>
  C2. The addresser the core installs keeps nothing from one call to the next: over
  any sequence of inputs, started in any state of the hasher, each call returns the
  SHA-256 digest of its own input, which is what a freshly initialised hasher
  returns for that input.
\<close>

theorem addresser_stateless:
  "fst (addresser_calls (makeAddresser (sha256_New sum256)) ds h) =
     map (\<lambda>d. Slice (digest_bytes (sum256 (bytes_of d)))) ds
   \<and> fst (addresser_calls (makeAddresser (sha256_New sum256)) ds h) =
     map (\<lambda>d. Hash_Sum (sha256_New sum256)
                 (Hash_Write (sha256_New sum256) sha256_fresh d) NilSlice) ds"
  by (simp add: sha256_calls sha256_fresh_digest)

section \<open>Properties of the content-addressed store\<close>

text \<open>
  C3. \<open>Put\<close> of the content-addressed store returns the addresser's output for the
  data, which is the address \<open>Address\<close> returns for the same input; it calls the
  backend's \<open>Put\<close> once, with that address and the data, and hands on the backend's
  error and state. On the in-memory backend the data is then read back at the
  returned address.
\<close>

theorem cas_Put_writes_at_address:
  "fst (fst (cas_Put cas data w)) = fst (cas_addresser cas data (hasher w))
   \<and> fst (fst (cas_Put cas data w)) = fst (cas_Address cas data w)
   \<and> snd (fst (cas_Put cas data w)) =
       fst (store_Put (cas_store cas) (backend w) (fst (cas_Address cas data w)) data)
   \<and> backend (snd (cas_Put cas data w)) =
       snd (store_Put (cas_store cas) (backend w) (fst (cas_Address cas data w)) data)
   \<and> fst (cas_Get (NewContentAddressedStore f mem_Store)
            (fst (fst (cas_Put (NewContentAddressedStore f mem_Store) data v)))
            (snd (cas_Put (NewContentAddressedStore f mem_Store) data v))) = (data, None)"
  by (simp add: cas_Put_def cas_Address_def cas_Get_def NewContentAddressedStore_def
      mem_Store_def case_prod_beta)

text \<open>
  C10. The address component of \<open>Put\<close>'s result is the addresser's output whatever
  the backend answers. With the addresser of \<open>NewHoard\<close> it is the 32-byte digest
  of the data, never the nil slice, also when the backend's \<open>Put\<close> fails: on the
  failing backend the result holds both the digest and the error.
\<close>

theorem cas_Put_address_with_error:
  "fst (fst (cas_Put cas data w)) = fst (cas_addresser cas data (hasher w))
   \<and> fst (fst (cas_Put (hoard_store (NewHoard sum256 store)) data v)) =
       Slice (digest_bytes (sum256 (bytes_of data)))
   \<and> fst (fst (cas_Put (hoard_store (NewHoard sum256 store)) data v)) \<noteq> NilSlice
   \<and> snd (fst (cas_Put (hoard_store (NewHoard sum256 store)) data v)) =
       fst (store_Put store (backend v) (Slice (digest_bytes (sum256 (bytes_of data)))) data)
   \<and> fst (cas_Put (hoard_store (NewHoard sum256 broken_Store)) data u) =
       (Slice (digest_bytes (sum256 (bytes_of data))), Some IOError)"
  by (simp add: cas_Put_def NewHoard_def NewContentAddressedStore_def makeAddresser_sha256
      broken_Store_def case_prod_beta)

section \<open>Properties of the facade\<close>

text \<open>
  C1. Whenever the facade's \<open>Put\<close> returns a reference for some data and salt,
  \<open>Ref\<close> returns a reference for the same data and salt, in whatever state the
  hasher and the backend are, and the two references carry the same address.
\<close>

theorem Put_Ref_same_address:
  "fst (Put Encrypt (NewHoard sum256 store) data salt w) = (Some r, None) \<Longrightarrow>
   \<exists>r'. fst (Ref Encrypt (NewHoard sum256 store) data salt w') = (Some r', None)
        \<and> Address r' = Address r"
  by (auto simp: Put_def Ref_def NewHoard_def NewContentAddressedStore_def cas_Put_def
      cas_Address_def makeAddresser_sha256 reference_New_def split: prod.splits option.splits)

theorem Put_Ref_same_address_witness:
  "fst (Put id_Encrypt (NewHoard length_sum256 mem_Store) (Slice [1, 2, 3]) NilSlice example_world) =
     (Some (reference_New (Slice (digest_bytes 3)) (Slice []) NilSlice), None)
   \<and> (\<exists>r'. fst (Ref id_Encrypt (NewHoard length_sum256 mem_Store) (Slice [1, 2, 3]) NilSlice
                  \<lparr> hasher = [7], backend = [(Slice [9], Slice [8])] \<rparr>) = (Some r', None)
          \<and> Address r' = Slice (digest_bytes 3))"
proof -
  have h: "fst (Put id_Encrypt (NewHoard length_sum256 mem_Store) (Slice [1, 2, 3]) NilSlice example_world) =
     (Some (reference_New (Slice (digest_bytes 3)) (Slice []) NilSlice), None)"
    by (simp add: Put_def id_Encrypt_def NewHoard_def NewContentAddressedStore_def cas_Put_def
        makeAddresser_sha256 mem_Store_def example_world_def length_sum256_def)
  from Put_Ref_same_address [OF h, of "\<lparr> hasher = [7], backend = [(Slice [9], Slice [8])] \<rparr>"]
  show ?thesis using h by (simp add: reference_New_def)
qed

text \<open>
  C4. An error of \<open>Encrypt\<close>, of \<open>Decrypt\<close> or of the backend is returned by the
  facade as the same error value, with a nil reference (\<open>Put\<close>, \<open>Ref\<close>) or the nil
  slice (\<open>Get\<close>) beside it; no operation returns a payload together with an
  error; and when \<open>Encrypt\<close> fails, \<open>Put\<close> and \<open>Ref\<close> leave the hasher and the
  backend as they were.
\<close>

theorem facade_errors_surface:
  "(\<forall>Encrypt data salt e. snd (Encrypt data salt) = Some e \<longrightarrow>
      Put Encrypt hrd data salt w = ((None, Some e), w))
   \<and> (\<forall>Encrypt data salt e. snd (Encrypt data salt) = Some e \<longrightarrow>
      Ref Encrypt hrd data salt w = ((None, Some e), w))
   \<and> (\<forall>Encrypt data salt b e.
      Encrypt data salt = (b, None) \<and>
      fst (store_Put (cas_store (hoard_store hrd)) (backend w)
             (fst (cas_addresser (hoard_store hrd) (blob_EncryptedData b) (hasher w)))
             (blob_EncryptedData b)) = Some e \<longrightarrow>
      fst (Put Encrypt hrd data salt w) = (None, Some e))
   \<and> (\<forall>Decrypt ref e.
      snd (fst (store_Get (cas_store (hoard_store hrd)) (backend w) (Address ref))) = Some e \<longrightarrow>
      fst (Get Decrypt hrd (Some ref) w) = Return (NilSlice, Some e))
   \<and> (\<forall>Decrypt ref ct e.
      fst (store_Get (cas_store (hoard_store hrd)) (backend w) (Address ref)) = (ct, None) \<and>
      snd (Decrypt (SecretKey ref) ct (Salt ref)) = Some e \<longrightarrow>
      fst (Get Decrypt hrd (Some ref) w) = Return (NilSlice, Some e))
   \<and> (\<forall>Encrypt data salt r e. fst (Put Encrypt hrd data salt w) = (r, Some e) \<longrightarrow> r = None)
   \<and> (\<forall>Encrypt data salt r e. fst (Ref Encrypt hrd data salt w) = (r, Some e) \<longrightarrow> r = None)
   \<and> (\<forall>Decrypt refp d e.
      fst (Get Decrypt hrd refp w) = Return (d, Some e) \<longrightarrow> d = NilSlice)"
  by (auto simp: Put_def Ref_def Get_def cas_Put_def cas_Get_def cas_Address_def case_prod_beta
      split: prod.splits option.splits)

theorem facade_errors_surface_witness:
  "Put failing_Encrypt (NewHoard length_sum256 mem_Store) (Slice [1]) NilSlice example_world =
     ((None, Some CryptoError), example_world)
   \<and> Ref failing_Encrypt (NewHoard length_sum256 mem_Store) (Slice [1]) NilSlice example_world =
     ((None, Some CryptoError), example_world)
   \<and> fst (Put id_Encrypt (NewHoard length_sum256 broken_Store) (Slice [1]) NilSlice example_world) =
     (None, Some IOError)
   \<and> fst (Get id_Decrypt (NewHoard length_sum256 mem_Store)
          (Some (reference_New (Slice [5]) (Slice []) NilSlice)) example_world) =
     Return (NilSlice, Some NotFound)
   \<and> fst (Get failing_Decrypt (NewHoard length_sum256 mem_Store)
          (Some (reference_New (Slice [5]) (Slice []) NilSlice))
          \<lparr> hasher = [], backend = [(Slice [5], Slice [1, 2, 3])] \<rparr>) =
     Return (NilSlice, Some CryptoError)"
proof -
  let ?hrd = "NewHoard length_sum256 mem_Store"
  let ?bad = "NewHoard length_sum256 broken_Store"
  let ?ref = "reference_New (Slice [5]) (Slice []) NilSlice"
  let ?w = "\<lparr> hasher = [], backend = [(Slice [5], Slice [1, 2, 3])] \<rparr> :: (byte list, (slice \<times> slice) list) world"
  have e: "snd (failing_Encrypt (Slice [1]) NilSlice) = Some CryptoError"
    by (simp add: failing_Encrypt_def)
  have p: "id_Encrypt (Slice [1]) NilSlice = (\<lparr> blob_EncryptedData = Slice [1], blob_SecretKey = Slice [] \<rparr>, None)
      \<and> fst (store_Put (cas_store (hoard_store ?bad)) (backend example_world)
             (fst (cas_addresser (hoard_store ?bad)
                (blob_EncryptedData \<lparr> blob_EncryptedData = Slice [1], blob_SecretKey = Slice [] \<rparr>)
                (hasher example_world)))
             (blob_EncryptedData \<lparr> blob_EncryptedData = Slice [1], blob_SecretKey = Slice [] \<rparr>)) = Some IOError"
    by (simp add: id_Encrypt_def NewHoard_def NewContentAddressedStore_def broken_Store_def)
  have g: "snd (fst (store_Get (cas_store (hoard_store ?hrd)) (backend example_world) (Address ?ref))) = Some NotFound"
    by (simp add: NewHoard_def NewContentAddressedStore_def mem_Store_def example_world_def reference_New_def)
  have d: "fst (store_Get (cas_store (hoard_store ?hrd)) (backend ?w) (Address ?ref)) = (Slice [1, 2, 3], None)
      \<and> snd (failing_Decrypt (SecretKey ?ref) (Slice [1, 2, 3]) (Salt ?ref)) = Some CryptoError"
    by (simp add: NewHoard_def NewContentAddressedStore_def mem_Store_def reference_New_def failing_Decrypt_def)
  note t1 = facade_errors_surface [of ?hrd example_world]
  note t2 = facade_errors_surface [of ?bad example_world]
  note t3 = facade_errors_surface [of ?hrd ?w]
  have c1: "Put failing_Encrypt ?hrd (Slice [1]) NilSlice example_world = ((None, Some CryptoError), example_world)"
    using t1 [THEN conjunct1, rule_format, where Encrypt = failing_Encrypt, OF e] .
  have c2: "Ref failing_Encrypt ?hrd (Slice [1]) NilSlice example_world = ((None, Some CryptoError), example_world)"
    using t1 [THEN conjunct2, THEN conjunct1, rule_format, where Encrypt = failing_Encrypt, OF e] .
  have c3: "fst (Put id_Encrypt ?bad (Slice [1]) NilSlice example_world) = (None, Some IOError)"
    using t2 [THEN conjunct2, THEN conjunct2, THEN conjunct1, rule_format,
        where Encrypt = id_Encrypt, OF p] .
  have c4: "fst (Get id_Decrypt ?hrd (Some ?ref) example_world) = Return (NilSlice, Some NotFound)"
    using t1 [THEN conjunct2, THEN conjunct2, THEN conjunct2, THEN conjunct1, rule_format,
        where Decrypt = id_Decrypt, OF g] .
  have c5: "fst (Get failing_Decrypt ?hrd (Some ?ref) ?w) = Return (NilSlice, Some CryptoError)"
    using t3 [THEN conjunct2, THEN conjunct2, THEN conjunct2, THEN conjunct2, THEN conjunct1,
        rule_format, where Decrypt = failing_Decrypt, OF d] .
  from c1 c2 c3 c4 c5 show ?thesis by simp
qed

text \<open>
  C5. \<open>Ref\<close> writes nothing: the backend's state after \<open>Ref\<close> is the state before,
  so \<open>Stat\<close> and \<open>Get\<close> at any address answer as they did before; the address in
  the reference comes from the content-addressed store's \<open>Address\<close> alone. On an
  empty in-memory backend, \<open>Stat\<close> after \<open>Ref\<close> reports that nothing exists.
\<close>

theorem Ref_no_write:
  "backend (snd (Ref Encrypt hrd data salt w)) = backend w
   \<and> fst (cas_Stat (hoard_store hrd) a (snd (Ref Encrypt hrd data salt w))) =
       fst (cas_Stat (hoard_store hrd) a w)
   \<and> fst (cas_Get (hoard_store hrd) a (snd (Ref Encrypt hrd data salt w))) =
       fst (cas_Get (hoard_store hrd) a w)
   \<and> fst (Ref Encrypt hrd data salt w) =
       (case Encrypt data salt of
          (b, Some err) \<Rightarrow> (None, Some err)
        | (b, None) \<Rightarrow>
            (Some (reference_New (fst (cas_Address (hoard_store hrd) (blob_EncryptedData b) w))
                     (blob_SecretKey b) salt), None))
   \<and> fst (cas_Stat (hoard_store (NewHoard sum256 mem_Store)) a
         (snd (Ref Encrypt (NewHoard sum256 mem_Store) data salt \<lparr> hasher = h, backend = [] \<rparr>))) =
       (Some \<lparr> Exists = False, Size = 0 \<rparr>, None)"
  by (simp add: Ref_def cas_Address_def cas_Stat_def cas_Get_def case_prod_beta NewHoard_def
      NewContentAddressedStore_def mem_Store_def split: prod.splits option.splits)

text \<open>
  C6. When the backend's \<open>Get\<close> at the reference's address returns the ciphertext
  without an error and \<open>Decrypt\<close> of that ciphertext under the reference's key and
  salt returns the data without an error, the facade's \<open>Get\<close> returns exactly that
  data and no error; the only state it touches is the backend's, through that one
  \<open>Get\<close>.
\<close>

theorem Get_composition:
  assumes "fst (store_Get (cas_store (hoard_store hrd)) (backend w) (Address ref)) = (ct, None)"
    and "Decrypt (SecretKey ref) ct (Salt ref) = (d, None)"
  shows "Get Decrypt hrd (Some ref) w =
     (Return (d, None),
      w\<lparr>backend := snd (store_Get (cas_store (hoard_store hrd)) (backend w) (Address ref))\<rparr>)"
  using assms by (simp add: Get_def cas_Get_def case_prod_beta split: prod.splits option.splits)

theorem Get_composition_witness:
  "Get id_Decrypt (NewHoard length_sum256 mem_Store)
     (Some (reference_New (Slice [5]) (Slice []) NilSlice))
     \<lparr> hasher = [], backend = [(Slice [5], Slice [1, 2, 3])] \<rparr> =
   (Return (Slice [1, 2, 3], None), \<lparr> hasher = [], backend = [(Slice [5], Slice [1, 2, 3])] \<rparr>)"
proof -
  let ?hrd = "NewHoard length_sum256 mem_Store"
  let ?w = "\<lparr> hasher = [], backend = [(Slice [5], Slice [1, 2, 3])] \<rparr> :: (byte list, (slice \<times> slice) list) world"
  let ?ref = "reference_New (Slice [5]) (Slice []) NilSlice"
  have h1: "fst (store_Get (cas_store (hoard_store ?hrd)) (backend ?w) (Address ?ref)) = (Slice [1, 2, 3], None)"
    by (simp add: NewHoard_def NewContentAddressedStore_def mem_Store_def reference_New_def)
  have h2: "id_Decrypt (SecretKey ?ref) (Slice [1, 2, 3]) (Salt ?ref) = (Slice [1, 2, 3], None)"
    by (simp add: id_Decrypt_def)
  from Get_composition [where Decrypt = id_Decrypt, OF h1 h2] show ?thesis
    by (simp add: NewHoard_def NewContentAddressedStore_def mem_Store_def reference_New_def)
qed

section \<open>Properties of the command-line client\<close>

text \<open>
  C7. \<open>parseSalt\<close> returns the nil slice for the empty string; for any other string
  it returns what the base64 decoder returns when the decoder reports no error, and
  the bytes of the string itself when it reports one.
\<close>

theorem parseSalt_cases:
  "parseSalt DecodeString [] = NilSlice
   \<and> (s \<noteq> [] \<and> DecodeString s = (b, None) \<longrightarrow> parseSalt DecodeString s = b)
   \<and> (s \<noteq> [] \<and> DecodeString s = (b, Some e) \<longrightarrow> parseSalt DecodeString s = bytes_of_string s)"
  by (simp add: parseSalt_def)

theorem parseSalt_cases_witness:
  "parseSalt StdEncoding_DecodeString [] = NilSlice
   \<and> parseSalt StdEncoding_DecodeString ''aGVsbG8='' = Slice [104, 101, 108, 108, 111]
   \<and> parseSalt StdEncoding_DecodeString ''salt'' = Slice [177, 169, 109]
   \<and> parseSalt StdEncoding_DecodeString ''pepper'' = Slice [112, 101, 112, 112, 101, 114]"
proof -
  have v1: "''aGVsbG8='' \<noteq> [] \<and>
      StdEncoding_DecodeString ''aGVsbG8='' = (Slice [104, 101, 108, 108, 111], None)"
    by (simp add: StdEncoding_DecodeString_def b64_index_def)
  have v2: "''salt'' \<noteq> [] \<and> StdEncoding_DecodeString ''salt'' = (Slice [177, 169, 109], None)"
    by (simp add: StdEncoding_DecodeString_def b64_index_def)
  have v3: "''pepper'' \<noteq> [] \<and>
      StdEncoding_DecodeString ''pepper'' = (NilSlice, Some CorruptInputError)"
    by (simp add: StdEncoding_DecodeString_def b64_index_def)
  have c0: "parseSalt StdEncoding_DecodeString [] = NilSlice"
    using parseSalt_cases [of StdEncoding_DecodeString] by simp
  have c1: "parseSalt StdEncoding_DecodeString ''aGVsbG8='' = Slice [104, 101, 108, 108, 111]"
    using parseSalt_cases [of StdEncoding_DecodeString "''aGVsbG8=''"] v1 by simp
  have c2: "parseSalt StdEncoding_DecodeString ''salt'' = Slice [177, 169, 109]"
    using parseSalt_cases [of StdEncoding_DecodeString "''salt''"] v2 by simp
  have c3: "parseSalt StdEncoding_DecodeString ''pepper'' = bytes_of_string ''pepper''"
    using parseSalt_cases [of StdEncoding_DecodeString "''pepper''"] v3 by simp
  from c0 c1 c2 c3 show ?thesis by (simp add: bytes_of_string_def)
qed

text \<open>
  \<open>fatalf\<close> writes the message to STDERR, exits with code 1 and touches nothing
  else. The action of \<open>get\<close>, given an address and no secret key, ends this way
  before any RPC is issued. The hook that runs before every command reports a
  failed \<open>grpc.Dial\<close> this way too, but whatever \<open>server.SplitListenURL\<close> returned
  as its error is overwritten by the result of \<open>grpc.Dial\<close>: when dialling reports
  no error the hook goes on, and nothing has been written.
\<close>

lemma get_without_key_fails:
  "a \<noteq> [] \<Longrightarrow> secretKey = None \<or> secretKey = Some [] \<Longrightarrow>
   get_action env conn (Some a) secretKey saltString p =
     (Exit 1,
      p\<lparr>stderr := stderr p @
           env_Sprintf env (''A secret key must be provided in order to decrypt.'' @ [CHR 0x0A]) []\<rparr>)"
  by (auto simp: get_action_def get_reference_def bind_cli_def fatalf_def Let_def)

lemma fatalf_exits_1:
  "fst (fatalf Sprintf format args p) = Exit 1
   \<and> stderr (snd (fatalf Sprintf format args p)) = stderr p @ Sprintf (format @ [CHR 0x0A]) args
   \<and> stdout (snd (fatalf Sprintf format args p)) = stdout p
   \<and> rpcs (snd (fatalf Sprintf format args p)) = rpcs p"
  by (simp add: fatalf_def)

lemma Before_ignores_SplitListenURL:
  "snd (env_Dial env dialURL (fst (env_SplitListenURL env dialURL))
          (fst (snd (env_SplitListenURL env dialURL)))) = None \<Longrightarrow>
   Before env dialURL p =
     (Continue (fst (env_Dial env dialURL (fst (env_SplitListenURL env dialURL))
                       (fst (snd (env_SplitListenURL env dialURL))))), p)"
  by (simp add: Before_def case_prod_beta Let_def split: option.splits)

text \<open>
  C8. A dial address that \<open>server.SplitListenURL\<close> rejects: the hook writes nothing
  to STDERR and does not exit; the command \<open>get\<close> goes on, reads its reference from
  STDIN and issues the RPC. In the example the RPC then fails on the connection
  dialled with the empty protocol, and only that later error is reported.
\<close>

theorem Before_drops_SplitListenURL_error:
  "env_SplitListenURL example_env ''localhost:53431'' = ([], [], Some UnsupportedScheme)
   \<and> Before example_env ''localhost:53431'' start_process = (Continue ([], []), start_process)
   \<and> hoarctl_get example_env ''localhost:53431'' None None [] start_process =
       (Exit 1,
        \<lparr> stderr = ''Error retrieving data: unavailable'' @ [CHR 0x0A], stdout = [],
          rpcs = [Some example_reference] \<rparr>)"
  by (simp add: example_env_def Before_def hoarctl_get_def get_action_def get_reference_def
      parseReference_def bind_cli_def start_process_def fatalf_def)

lemma hoarctl_get_example:
  "hoarctl_get example_env ''tcp://localhost:53431'' (Some ''AQ=='') (Some ''Ag=='') [] start_process =
     (Continue (), \<lparr> stderr = [], stdout = [120], rpcs = [Some example_reference] \<rparr>)
   \<and> hoarctl_get example_env ''tcp://localhost:53431'' (Some ''AQ=='') None [] start_process =
     (Exit 1,
      \<lparr> stderr = ''A secret key must be provided in order to decrypt.'' @ [CHR 0x0A],
        stdout = [], rpcs = [] \<rparr>)"
  by (simp add: example_env_def Before_def hoarctl_get_def get_action_def get_reference_def
      readBase64_def parseSalt_def StdEncoding_DecodeString_def b64_index_def
      bind_cli_def start_process_def fatalf_def example_reference_def)

section \<open>Properties of the credentials provider chain\<close>

lemma chain_switch_ok:
  "entry_ok c \<Longrightarrow> chain_switch c None = (entry_provider c, None)"
  by (auto simp: entry_ok_def chain_switch_def entry_provider_def EnvProviderName_def
      SharedCredentialsProviderName_def StaticProviderName_def
      SharedCredentialsProviderConfig_Provider_def StaticProviderConfig_Provider_def)

lemma chain_switch_bad:
  "\<not> entry_ok c \<Longrightarrow> chain_switch c None = (None, Some (entry_error c))"
  by (auto simp: entry_ok_def chain_switch_def entry_error_def EnvProviderName_def
      SharedCredentialsProviderName_def StaticProviderName_def
      SharedCredentialsProviderConfig_Provider_def StaticProviderConfig_Provider_def)

lemma chain_loop_map:
  "chain_loop (map Some cfgs) acc None =
     (case first_violation cfgs of
        None \<Rightarrow> Return (Inr (acc @ map entry_provider cfgs))
      | Some c \<Rightarrow> Return (Inl (entry_error c)))"
proof (induction cfgs arbitrary: acc)
  case Nil
  show ?case by simp
next
  case (Cons c cfgs)
  show ?case
  proof (cases "entry_ok c")
    case True
    then show ?thesis using Cons.IH [of "acc @ [entry_provider c]"]
      by (simp add: chain_switch_ok split: option.split)
  next
    case False
    then show ?thesis by (simp add: chain_switch_bad)
  qed
qed

lemma first_violation_None: "(first_violation cfgs = None) = list_all entry_ok cfgs"
  by (induction cfgs) simp_all

lemma first_violation_Some:
  "first_violation cfgs = Some c \<Longrightarrow>
   \<exists>pre post. cfgs = pre @ c # post \<and> list_all entry_ok pre \<and> \<not> entry_ok c"
proof (induction cfgs)
  case Nil
  then show ?case by simp
next
  case (Cons a cfgs)
  show ?case
  proof (cases "entry_ok a")
    case True
    with Cons obtain pre post where "cfgs = pre @ c # post" "list_all entry_ok pre" "\<not> entry_ok c"
      by auto
    with True have "a # cfgs = (a # pre) @ c # post \<and> list_all entry_ok (a # pre) \<and> \<not> entry_ok c"
      by simp
    then show ?thesis by blast
  next
    case False
    with Cons.prems have "a # cfgs = [] @ c # cfgs \<and> list_all entry_ok [] \<and> \<not> entry_ok c"
      by simp
    then show ?thesis by blast
  qed
qed

lemma chain_loop_nil_entry:
  "chain_loop (map Some pre @ None # post) acc None =
     (case first_violation pre of
        None \<Rightarrow> Panic
      | Some c \<Rightarrow> Return (Inl (entry_error c)))"
proof (induction pre arbitrary: acc)
  case Nil
  show ?case by simp
next
  case (Cons c pre)
  show ?case
  proof (cases "entry_ok c")
    case True
    then show ?thesis using Cons.IH [of "acc @ [entry_provider c]"]
      by (simp add: chain_switch_ok)
  next
    case False
    then show ?thesis by (simp add: chain_switch_bad)
  qed
qed

text \<open>
  The entries of the list are pointers. A nil entry that is reached, every entry
  before it being admissible, is dereferenced: the call panics.
\<close>

lemma AWSCredentialsFromChain_nil_entry:
  "AWSCredentialsFromChain (map Some pre @ None # post) =
     (case first_violation pre of
        None \<Rightarrow> Panic
      | Some c \<Rightarrow> Return (None, Some (entry_error c)))"
  by (simp add: AWSCredentialsFromChain_def chain_loop_nil_entry split: option.split)

text \<open>
  C9. For a list of configurations, \<open>AWSCredentialsFromChain\<close> returns the error of
  the first inadmissible entry, and when there is none the credentials chaining one
  provider per entry, in the order of the list: nil credentials for the empty list.
  It returns without an error exactly when every entry is admissible, and the
  provider built for an entry is non-nil exactly when the entry is admissible.
\<close>

theorem AWSCredentialsFromChain_spec:
  "AWSCredentialsFromChain (map Some cfgs) =
     (case first_violation cfgs of
        None \<Rightarrow> Return (chain_credentials cfgs, None)
      | Some c \<Rightarrow> Return (None, Some (entry_error c)))
   \<and> (\<exists>creds. AWSCredentialsFromChain (map Some cfgs) = Return (creds, None)) = list_all entry_ok cfgs
   \<and> list_all (\<lambda>c. entry_ok c = (entry_provider c \<noteq> None)) cfgs
   \<and> AWSCredentialsFromChain [] = Return (None, None)"
proof -
  have eq: "AWSCredentialsFromChain (map Some cfgs) =
     (case first_violation cfgs of
        None \<Rightarrow> Return (chain_credentials cfgs, None)
      | Some c \<Rightarrow> Return (None, Some (entry_error c)))"
    by (cases "first_violation cfgs")
       (simp_all add: AWSCredentialsFromChain_def chain_loop_map chain_credentials_def)
  have iff: "(\<exists>creds. AWSCredentialsFromChain (map Some cfgs) = Return (creds, None)) =
      list_all entry_ok cfgs"
    unfolding eq first_violation_None [symmetric] by (cases "first_violation cfgs") simp_all
  have some: "list_all (\<lambda>c. entry_ok c = (entry_provider c \<noteq> None)) cfgs"
    by (induction cfgs) (auto simp: entry_ok_def entry_provider_def)
  have empty: "AWSCredentialsFromChain [] = Return (None, None)"
    by (simp add: AWSCredentialsFromChain_def)
  from eq iff some empty show ?thesis by blast
qed

end
